theory Spec2Isabelle
  imports Complex_Main "HOL-Library.AList"
begin

section \<open>Numbers and their decimal rendering\<close>

text \<open>
  The server computes with JavaScript numbers. Amounts are represented here by exact
  rationals: the development describes the arithmetic of the handlers (which values
  are added, divided and compared), not the rounding of IEEE doubles. Division by
  zero, which JavaScript answers with \<open>Infinity\<close> or \<open>NaN\<close>, is written out where the
  source divides.
\<close>

definition digit_char :: "int \<Rightarrow> char" where
  "digit_char d = char_of (48 + d)"

text \<open>The decimal digits of a non-negative integer.\<close>

function digits :: "int \<Rightarrow> string" where
  "digits n = (if n < 10 then [digit_char n] else digits (n div 10) @ [digit_char (n mod 10)])"
  by pat_completeness auto
termination
  by (relation "measure nat") auto

declare digits.simps [simp del]

definition pad_zeros :: "nat \<Rightarrow> string \<Rightarrow> string" where
  "pad_zeros w s = replicate (w - length s) (CHR ''0'') @ s"

text \<open>
  \<open>Number.prototype.toFixed(f)\<close>: the sign is split off, the magnitude is scaled by
  \<open>10^f\<close> and rounded to the nearest integer (the larger one at a tie), and the digits
  are printed with \<open>f\<close> of them after the point. (Magnitudes of \<open>10^21\<close> and more, which
  JavaScript prints in exponent notation, are outside this rendering.)
\<close>

definition toFixed :: "nat \<Rightarrow> rat \<Rightarrow> string" where
  "toFixed f x =
     (let n = \<lfloor>\<bar>x\<bar> * 10 ^ f + 1 / 2\<rfloor>;
          m = digits (n div 10 ^ f) @
              (if f = 0 then [] else CHR ''.'' # pad_zeros f (digits (n mod 10 ^ f)))
      in if x < 0 then CHR ''-'' # m else m)"

text \<open>
  \<open>((amt / totalAmount) * 100).toFixed(1)\<close>: with a zero total the quotient is
  \<open>Infinity\<close>, \<open>-Infinity\<close> or \<open>NaN\<close>, and \<open>toFixed\<close> prints that name.
\<close>

definition percent_of :: "rat \<Rightarrow> rat \<Rightarrow> string" where
  "percent_of amt tot =
     (if tot = 0
      then (if 0 < amt then ''Infinity'' else if amt < 0 then ''-Infinity'' else ''NaN'')
      else toFixed 1 ((amt / tot) * 100))"

section \<open>Transactions\<close>

text \<open>
  A transaction as the request body carries it. A field that is absent, \<open>null\<close> or
  \<open>undefined\<close> is \<open>None\<close>. The date is kept as what \<open>new Date(t.date)\<close> makes of it:
  \<open>DateMissing\<close> when \<open>t.date\<close> is falsy, \<open>DateInvalid\<close> when it is truthy and does
  not parse (an Invalid Date), \<open>DateAt ms\<close> when it parses to the time value \<open>ms\<close>
  (milliseconds since the epoch). \<open>categories\<close> is the nested object of the query
  result that the client-side document reads: \<open>None\<close> when \<open>t.categories\<close> is
  absent, \<open>Some n\<close> when it is an object whose \<open>category_name\<close> is \<open>n\<close>.
\<close>

datatype jsdate = DateMissing | DateInvalid | DateAt int

record transaction =
  amount :: rat
  category :: "string option"
  category_name :: "string option"
  categories :: "string option option"
  date :: jsdate
  description :: "string option"

text \<open>The value of a request field that should hold the transaction array.\<close>

datatype jsval =
    JUndefined | JNull | JBool bool | JNum rat | JStr string | JObject
  | JArray "transaction list"

fun truthy :: "jsval \<Rightarrow> bool" where
  "truthy JUndefined = False"
| "truthy JNull = False"
| "truthy (JBool b) = b"
| "truthy (JNum n) = (n \<noteq> 0)"
| "truthy (JStr s) = (s \<noteq> [])"
| "truthy JObject = True"
| "truthy (JArray xs) = True"

fun isArray :: "jsval \<Rightarrow> bool" where
  "isArray (JArray xs) = True"
| "isArray v = False"

text \<open>\<open>a || b\<close> on optional strings: the empty string is falsy.\<close>

definition or_else :: "string option \<Rightarrow> string \<Rightarrow> string" where
  "or_else a b = (case a of None \<Rightarrow> b | Some s \<Rightarrow> if s = [] then b else s)"

text \<open>\<open>t.category || t.category_name || 'Other'\<close>\<close>

definition category_key :: "transaction \<Rightarrow> string" where
  "category_key t = or_else (category t) (or_else (category_name t) ''Other'')"

section \<open>Objects used as dictionaries\<close>

text \<open>
  \<open>categoryTotals\<close>, \<open>categories\<close> and \<open>categoryData\<close> are object literals \<open>{}\<close>
  indexed by the category name. An object is the list of its own properties in
  creation order. A fresh \<open>{}\<close> inherits the properties of \<open>Object.prototype\<close>, and
  \<open>obj[k] || 0\<close> reads them:
  \<^item> for a name in \<open>inherited_functions\<close> the read yields a function, the sum
    \<open>f + t.amount\<close> is a string, and the assignment creates an own property holding
    that string (\<open>Concat\<close>); later sums with it are strings again;
  \<^item> for \<open>__proto__\<close> the read yields the prototype object, the sum is a string, and
    the assignment goes to the \<open>__proto__\<close> setter, which ignores a string: no
    property is created.
\<close>

datatype entry_value = Num rat | Concat

definition inherited_functions :: "string list" where
  "inherited_functions =
     [''constructor'', ''toString'', ''toLocaleString'', ''valueOf'', ''hasOwnProperty'',
      ''isPrototypeOf'', ''propertyIsEnumerable'', ''__defineGetter__'',
      ''__defineSetter__'', ''__lookupGetter__'', ''__lookupSetter__'']"

text \<open>\<open>obj[k] = (obj[k] || 0) + a\<close>\<close>

definition accumulate :: "(string \<times> entry_value) list \<Rightarrow> string \<Rightarrow> rat \<Rightarrow> (string \<times> entry_value) list" where
  "accumulate obj k a =
     (case map_of obj k of
        Some (Num v) \<Rightarrow> AList.update k (Num (v + a)) obj
      | Some Concat \<Rightarrow> obj
      | None \<Rightarrow>
          if k = ''__proto__'' then obj
          else if k \<in> set inherited_functions then obj @ [(k, Concat)]
          else obj @ [(k, Num a)])"

text \<open>
  \<open>Object.entries\<close> lists the own properties whose name is an array index (the
  canonical decimal of an integer up to \<open>2^32 - 2\<close>) first, in ascending numeric order,
  and then the other properties in creation order.
\<close>

definition is_digit :: "char \<Rightarrow> bool" where
  "is_digit c = (48 \<le> (of_char c :: int) \<and> (of_char c :: int) \<le> 57)"

definition int_of_digits :: "string \<Rightarrow> int" where
  "int_of_digits s = foldl (\<lambda>n c. 10 * n + (of_char c - 48)) 0 s"

definition array_index :: "string \<Rightarrow> int option" where
  "array_index k =
     (if k \<noteq> [] \<and> list_all is_digit k \<and> (k = ''0'' \<or> hd k \<noteq> CHR ''0'')
         \<and> int_of_digits k \<le> 4294967294
      then Some (int_of_digits k) else None)"

definition index_of :: "string \<times> 'a \<Rightarrow> int" where
  "index_of e = (case array_index (fst e) of Some n \<Rightarrow> n | None \<Rightarrow> 0)"

definition entries :: "(string \<times> 'a) list \<Rightarrow> (string \<times> 'a) list" where
  "entries obj =
     sort_key index_of (filter (\<lambda>e. array_index (fst e) \<noteq> None) obj) @
     filter (\<lambda>e. array_index (fst e) = None) obj"

section \<open>Insight statistics\<close>

text \<open>
  The loop that both the insights handler and \<open>getFallbackAnalysis\<close> run:
  \<^verbatim>\<open>
  transactions.forEach(t => {
    const category = t.category || t.category_name || 'Other';
    categoryTotals[category] = (categoryTotals[category] || 0) + t.amount;
    totalAmount += t.amount;
  });
  \<close>
\<close>

definition tally :: "transaction list \<Rightarrow> (string \<times> entry_value) list \<times> rat" where
  "tally txs =
     fold (\<lambda>t (obj, tot). (accumulate obj (category_key t) (amount t), tot + amount t))
       txs ([], 0)"

definition categoryTotals :: "transaction list \<Rightarrow> (string \<times> entry_value) list" where
  "categoryTotals txs = fst (tally txs)"

definition totalAmount :: "transaction list \<Rightarrow> rat" where
  "totalAmount txs = snd (tally txs)"

datatype failure = TypeError | RangeError | SortOrderUnspecified

fun numeric_entries :: "(string \<times> entry_value) list \<Rightarrow> (string \<times> rat) list option" where
  "numeric_entries [] = Some []"
| "numeric_entries ((k, Num v) # es) = map_option ((#) (k, v)) (numeric_entries es)"
| "numeric_entries ((k, Concat) # es) = None"

text \<open>
  \<^verbatim>\<open>Object.entries(categoryTotals).sort((a, b) => b[1] - a[1]).slice(0, 3)\<close>
  together with what every use of the result does, which is to call \<open>toFixed\<close> on each
  of the (at most three) totals. \<open>Array.prototype.sort\<close> is stable, so with numeric
  totals the result is the stable sort by descending total. With a \<open>Concat\<close> entry the
  comparator yields \<open>NaN\<close>, it is not a consistent comparator, and ECMAScript leaves
  the order to the implementation: with at most three entries the string is among
  the top three whatever the order and \<open>toFixed\<close> raises a TypeError; with more,
  the outcome is not determined (\<open>SortOrderUnspecified\<close>).
\<close>

definition topCategories :: "transaction list \<Rightarrow> failure + (string \<times> rat) list" where
  "topCategories txs =
     (let es = entries (categoryTotals txs)
      in case numeric_entries es of
           Some ns \<Rightarrow> Inr (take 3 (sort_key (\<lambda>e. - snd e) ns))
         | None \<Rightarrow> if length es \<le> 3 then Inl TypeError else Inl SortOrderUnspecified)"

section \<open>The fallback analysis\<close>

text \<open>
  The weekly grouping of \<open>getFallbackAnalysis\<close>, with the server's local time taken
  to be UTC:
  \<^verbatim>\<open>
  if (t.date) {
    const date = new Date(t.date);
    const weekStart = new Date(date.setDate(date.getDate() - date.getDay()));
    const weekKey = weekStart.toISOString().split('T')[0];
    weeklySpending[weekKey] = (weeklySpending[weekKey] || 0) + t.amount;
  }
  \<close>
  \<open>toISOString\<close> raises a RangeError on an Invalid Date. The key, a calendar day, is
  represented by its day number.
\<close>

definition ms_per_day :: int where
  "ms_per_day = 86400000"

definition max_time :: int where
  "max_time = 8640000000000000"

definition weekKey :: "jsdate \<Rightarrow> failure + int" where
  "weekKey d =
     (case d of
        DateAt ms \<Rightarrow>
          if \<bar>ms\<bar> > max_time then Inl RangeError
          else
            let getDay = (ms div ms_per_day + 4) mod 7;
                weekStart = ms - getDay * ms_per_day
            in if \<bar>weekStart\<bar> > max_time then Inl RangeError
               else Inr (weekStart div ms_per_day)
      | _ \<Rightarrow> Inl RangeError)"

fun weeklySpending :: "(int \<times> rat) list \<Rightarrow> transaction list \<Rightarrow> failure + (int \<times> rat) list" where
  "weeklySpending acc [] = Inr acc"
| "weeklySpending acc (t # ts) =
     (if date t = DateMissing then weeklySpending acc ts
      else case weekKey (date t) of
             Inl e \<Rightarrow> Inl e
           | Inr k \<Rightarrow>
               weeklySpending
                 (AList.update k ((case map_of acc k of Some v \<Rightarrow> v | None \<Rightarrow> 0) + amount t) acc)
                 ts)"

text \<open>Non-ASCII characters of the template are given by their UTF-8 bytes.\<close>

definition bq :: string where
  "bq = [CHR 0x60]"

definition apostrophe :: string where
  "apostrophe = [CHR 0x27]"

definition emoji_chart :: string where
  "emoji_chart = [CHR 0xF0, CHR 0x9F, CHR 0x93, CHR 0x8A]"

definition emoji_money :: string where
  "emoji_money = [CHR 0xF0, CHR 0x9F, CHR 0x92, CHR 0xB0]"

definition emoji_trend :: string where
  "emoji_trend = [CHR 0xF0, CHR 0x9F, CHR 0x93, CHR 0x88]"

definition emoji_bulb :: string where
  "emoji_bulb = [CHR 0xF0, CHR 0x9F, CHR 0x92, CHR 0xA1]"

definition emoji_target :: string where
  "emoji_target = [CHR 0xF0, CHR 0x9F, CHR 0x8E, CHR 0xAF]"

definition emoji_cross :: string where
  "emoji_cross = [CHR 0xE2, CHR 0x9D, CHR 0x8C]"

definition emoji_warning :: string where
  "emoji_warning = [CHR 0xE2, CHR 0x9A, CHR 0xA0, CHR 0xEF, CHR 0xB8, CHR 0x8F]"

definition newline :: string where
  "newline = [CHR 0x0A]"

fun join :: "string \<Rightarrow> string list \<Rightarrow> string" where
  "join sep [] = []"
| "join sep [x] = x"
| "join sep (x # y # ys) = x @ sep @ join sep (y # ys)"

text \<open>What \<open>getFallbackAnalysis\<close> has computed when it reaches its template.\<close>

record fallback_stats =
  fs_totalAmount :: rat
  fs_length :: nat
  fs_topCategories :: "(string \<times> rat) list"
  fs_averageTransaction :: rat
  fs_weeks :: nat
  fs_avgWeeklySpend :: rat

text \<open>
  The statements of \<open>getFallbackAnalysis\<close> in the order in which they can raise: the
  weekly loop (RangeError at a date that does not parse), then the template, which
  calls \<open>toFixed\<close> on the top totals. \<open>transactions.length\<close> is not zero here.
\<close>

definition fallback_statistics :: "transaction list \<Rightarrow> failure + fallback_stats" where
  "fallback_statistics txs =
     (case weeklySpending [] txs of
        Inl e \<Rightarrow> Inl e
      | Inr weekly \<Rightarrow>
          (case topCategories txs of
             Inl e \<Rightarrow> Inl e
           | Inr tops \<Rightarrow>
               let weeks = length weekly
               in Inr \<lparr> fs_totalAmount = totalAmount txs,
                        fs_length = length txs,
                        fs_topCategories = tops,
                        fs_averageTransaction = totalAmount txs / of_nat (length txs),
                        fs_weeks = weeks,
                        fs_avgWeeklySpend =
                          (if weeks > 0 then totalAmount txs / of_nat weeks else totalAmount txs) \<rparr>))"

definition top_line :: "rat \<Rightarrow> nat \<Rightarrow> string \<times> rat \<Rightarrow> string" where
  "top_line tot i e =
     digits (int i + 1) @ ''. **'' @ fst e @ ''**: '' @ bq @ toFixed 2 (snd e) @ bq @
     '' *('' @ percent_of (snd e) tot @ ''%)*''"

definition top_lines :: "rat \<Rightarrow> (string \<times> rat) list \<Rightarrow> string" where
  "top_lines tot tops = join newline (map (\<lambda>(i, e). top_line tot i e) (enumerate 0 tops))"

text \<open>\<open>topCategories[0]?.[0]\<close> inside a template: the name, or \<open>undefined\<close>.\<close>

definition first_name :: "(string \<times> rat) list \<Rightarrow> string" where
  "first_name tops = (case tops of [] \<Rightarrow> ''undefined'' | e # _ \<Rightarrow> fst e)"

definition fallback_text :: "fallback_stats \<Rightarrow> string \<Rightarrow> string \<Rightarrow> string" where
  "fallback_text st month year =
     join newline
       [''## '' @ emoji_chart @ '' Expense Analysis for '' @ month @ '' '' @ year,
        [],
        ''### '' @ emoji_money @ '' Spending Overview'',
        ''- **Total Expenses**: '' @ bq @ toFixed 2 (fs_totalAmount st) @ bq,
        ''- **Number of Transactions**: '' @ bq @ digits (int (fs_length st)) @ bq,
        ''- **Average per Transaction**: '' @ bq @ toFixed 2 (fs_averageTransaction st) @ bq @
          (if fs_weeks st > 1
           then newline @ ''- **Average Weekly Spend**: '' @ bq @
                toFixed 2 (fs_avgWeeklySpend st) @ bq
           else []),
        [],
        ''### '' @ emoji_trend @ '' Top Spending Categories'',
        top_lines (fs_totalAmount st) (fs_topCategories st),
        [],
        ''### '' @ emoji_bulb @ '' Money-Saving Opportunities'',
        ''- **Track Daily Expenses**: Monitor small recurring costs that add up over time'',
        ''- **Set Weekly Budget**: Aim for '' @ bq @
          toFixed 2 (fs_avgWeeklySpend st * (9 / 10)) @ bq @ '' per week to save 10%'',
        ''- **Review Top Category**: Analyze your **'' @ first_name (fs_topCategories st) @
          ''** spending for potential cuts'',
        [],
        ''### '' @ emoji_target @ '' Budget Recommendation'',
        ''Consider using the **50/30/20 budgeting rule**:'',
        ''- 50% for needs'',
        ''- 30% for wants  '',
        ''- 20% for savings'',
        [],
        ''This helps build better financial habits and ensures you'' @ apostrophe @
          ''re saving for the future.'',
        [],
        ''---'',
        ''*'' @ emoji_warning @
          '' Note: This is a basic analysis. AI-powered insights will be available when the service is restored.*'']"

definition no_data_text :: string where
  "no_data_text =
     ''## '' @ emoji_cross @ '' No Data Available'' @ newline @ newline @
     ''No transaction data available for analysis.''"

text \<open>
  \<open>getFallbackAnalysis(transactions, month, year)\<close>. A truthy value that is not an
  array has no \<open>forEach\<close> (a string of length zero is falsy, a number or an object has
  no length zero): TypeError.
\<close>

definition getFallbackAnalysis :: "jsval \<Rightarrow> string \<Rightarrow> string \<Rightarrow> failure + string" where
  "getFallbackAnalysis transactions month year =
     (if \<not> truthy transactions then Inr no_data_text
      else case transactions of
             JArray txs \<Rightarrow>
               if length txs = 0 then Inr no_data_text
               else (case fallback_statistics txs of
                       Inl e \<Rightarrow> Inl e
                     | Inr st \<Rightarrow> Inr (fallback_text st month year))
           | _ \<Rightarrow> Inl TypeError)"

section \<open>Requests, responses and the external providers\<close>

datatype json = JS string | JN rat | JB bool | JA "json list" | JO "(string \<times> json) list"

text \<open>
  A report is the sequence of its text items; fonts, sizes, positions and spacing are
  not represented. A date cell is the transaction's date (the source prints it with
  \<open>toLocaleDateString\<close>), a category cell the value handed to the renderer.
\<close>

datatype report_line =
    Title string string
  | SummaryHeading
  | SummaryText string
  | TableHeading
  | HeaderRow
  | Row jsdate "string option" string string
  | TotalLine string
  | CategoryHeading
  | CategoryLine string

datatype response = Json nat json | Pdf "(string \<times> string) list" "report_line list"

text \<open>
  \<open>req.body\<close>: the fields the handlers destructure, and \<open>other\<close> for whatever else the
  caller put into the body. \<open>month\<close> and \<open>year\<close> are kept as the text a template
  makes of them.
\<close>

record body =
  transactions :: jsval
  month :: string
  year :: string
  summary :: string
  budget :: "rat option"
  other :: "(string \<times> json) list"

record request =
  authorization :: "string option"
  payload :: body

text \<open>
  The prompt handed to the generative model, as the values that fill the holes of
  its template; the fixed instruction text is not represented.
  \<^item> \<open>StatsPrompt month year total count tops lines\<close>: the statistics prompt, with one
    bullet line for each transaction of \<open>lines\<close>;
  \<^item> \<open>JsonPrompt month year shown note\<close>: the prompt that embeds
    \<open>JSON.stringify(shown)\<close>, and the text \<open>(Showing 20 of n transactions)\<close> when
    \<open>note = Some n\<close>;
  \<^item> \<open>BudgetPrompt b v\<close> and \<open>SummaryPrompt v\<close>: the two prompts of the earliest
    handler, which embed \<open>JSON.stringify\<close> of the whole field.
\<close>

datatype prompt =
    StatsPrompt string string string nat "string list" "transaction list"
  | JsonPrompt string string "transaction list" "nat option"
  | BudgetPrompt rat jsval
  | SummaryPrompt jsval

fun raw_transactions :: "prompt \<Rightarrow> transaction list" where
  "raw_transactions (StatsPrompt m y tot n tops lines) = lines"
| "raw_transactions (JsonPrompt m y shown note) = shown"
| "raw_transactions (BudgetPrompt b v) = (case v of JArray txs \<Rightarrow> txs | _ \<Rightarrow> [])"
| "raw_transactions (SummaryPrompt v) = (case v of JArray txs \<Rightarrow> txs | _ \<Rightarrow> [])"

text \<open>
  What the generative provider does with the one call a request makes:
  \<open>generateContent\<close> rejects (a timeout, a network or service error), or it resolves
  to something whose response cannot be read (reading it, or calling \<open>text()\<close>,
  raises an error with the given message), or it yields a text.
\<close>

datatype ai_outcome = Rejects | Malformed string | Text string

text \<open>
  What the auth provider does with \<open>getUser(token)\<close>: it raises, it answers with an
  error, or it resolves the user.
\<close>

datatype auth_outcome = AuthThrows | AuthError | AuthUser string

text \<open>
  What a handler did: the response it sent, or the error with which it ended without
  sending one, and the prompt it submitted to the generative provider, if any.
\<close>

record handled =
  reply :: "failure + response"
  ai_prompt :: "prompt option"

definition respond :: "response \<Rightarrow> prompt option \<Rightarrow> handled" where
  "respond r p = \<lparr> reply = Inr r, ai_prompt = p \<rparr>"

text \<open>
  \<open>text.trim().length === 0\<close>, on the UTF-8 bytes of the text: \<open>trim\<close> removes the
  white space and line terminators of ECMAScript.
\<close>

definition ascii_space :: "char \<Rightarrow> bool" where
  "ascii_space c = (c \<in> set [CHR 0x09, CHR 0x0A, CHR 0x0B, CHR 0x0C, CHR 0x0D, CHR 0x20])"

fun blank :: "string \<Rightarrow> bool" where
  "blank [] = True"
| "blank [a] = ascii_space a"
| "blank [a, b] = (if ascii_space a then ascii_space b else (a = CHR 0xC2 \<and> b = CHR 0xA0))"
| "blank (a # b # c # cs) =
     (if ascii_space a then blank (b # c # cs)
      else if a = CHR 0xC2 \<and> b = CHR 0xA0 then blank (c # cs)
      else if (a = CHR 0xE1 \<and> b = CHR 0x9A \<and> c = CHR 0x80)
            \<or> (a = CHR 0xE2 \<and> b = CHR 0x80 \<and>
                 (c \<in> set [CHR 0x80, CHR 0x81, CHR 0x82, CHR 0x83, CHR 0x84, CHR 0x85,
                            CHR 0x86, CHR 0x87, CHR 0x88, CHR 0x89, CHR 0x8A, CHR 0xA8,
                            CHR 0xA9, CHR 0xAF]))
            \<or> (a = CHR 0xE2 \<and> b = CHR 0x81 \<and> c = CHR 0x9F)
            \<or> (a = CHR 0xE3 \<and> b = CHR 0x80 \<and> c = CHR 0x80)
            \<or> (a = CHR 0xEF \<and> b = CHR 0xBB \<and> c = CHR 0xBF)
      then blank cs
      else False)"

section \<open>The token verification gate\<close>

text \<open>\<open>s.split(' ')\<close>\<close>

fun split_on :: "char \<Rightarrow> string \<Rightarrow> string list" where
  "split_on sep [] = [[]]"
| "split_on sep (c # cs) =
     (if c = sep then [] # split_on sep cs
      else (case split_on sep cs of
              [] \<Rightarrow> [[c]]
            | w # ws \<Rightarrow> (c # w) # ws))"

text \<open>\<open>req.headers.authorization?.split(' ')[1]\<close>: \<open>None\<close> is \<open>undefined\<close>.\<close>

definition bearer_token :: "string option \<Rightarrow> string option" where
  "bearer_token h =
     (case h of
        None \<Rightarrow> None
      | Some s \<Rightarrow> (case split_on (CHR '' '') s of a # b # _ \<Rightarrow> Some b | _ \<Rightarrow> None))"

datatype gate = Deny response | Next string

definition unauthorized :: response where
  "unauthorized = Json 401 (JO [(''error'', JS ''Unauthorized'')])"

definition authenticateJWT :: "request \<Rightarrow> auth_outcome \<Rightarrow> gate" where
  "authenticateJWT req auth =
     (case bearer_token (authorization req) of
        None \<Rightarrow> Deny unauthorized
      | Some token \<Rightarrow>
          if token = [] then Deny unauthorized
          else (case auth of
                  AuthThrows \<Rightarrow> Deny unauthorized
                | AuthError \<Rightarrow> Deny unauthorized
                | AuthUser user \<Rightarrow> Next user))"

text \<open>
  A route registered as \<open>app.post(path, authenticateJWT, handler)\<close>: the handler runs
  only when the gate calls \<open>next()\<close>.
\<close>

definition protected :: "(request \<Rightarrow> handled) \<Rightarrow> request \<Rightarrow> auth_outcome \<Rightarrow> handled" where
  "protected handler req auth =
     (case authenticateJWT req auth of
        Deny r \<Rightarrow> respond r None
      | Next user \<Rightarrow> handler req)"

section \<open>Report rendering\<close>

definition report_row :: "(transaction \<Rightarrow> string option) \<Rightarrow> transaction \<Rightarrow> report_line" where
  "report_row cell t =
     Row (date t) (cell t) (or_else (description t) ''-'') (''$'' @ toFixed 2 (amount t))"

text \<open>
  The server's \<open>/api/generate-report\<close> handler. Its versions differ in the category
  cell only (\<open>t.category_name\<close>, or \<open>t.category_name || t.category\<close>), which is the
  parameter \<open>cell\<close>. A \<open>transactions\<close> field that is not an array has no \<open>forEach\<close>: the
  TypeError is caught and answered with status 500.
  \<^verbatim>\<open>
  let total = 0;
  transactions.forEach(t => { total += t.amount; ... });
  doc.font('Helvetica-Bold').text(`Total Expenses: $${total.toFixed(2)}`, ...);
  \<close>
\<close>

definition report_rows :: "(transaction \<Rightarrow> string option) \<Rightarrow> transaction list \<Rightarrow> report_line list \<times> rat" where
  "report_rows cell txs =
     fold (\<lambda>t (rows, tot). (rows @ [report_row cell t], tot + amount t)) txs ([], 0)"

definition generate_report_with :: "(transaction \<Rightarrow> string option) \<Rightarrow> body \<Rightarrow> handled" where
  "generate_report_with cell b =
     (case transactions b of
        JArray txs \<Rightarrow>
          respond
            (Pdf [(''Content-Type'', ''application/pdf''),
                  (''Content-Disposition'',
                   ''attachment; filename=expense-report-'' @ month b @ ''-'' @ year b @ ''.pdf'')]
               ([Title (month b) (year b), SummaryHeading, SummaryText (summary b),
                 TableHeading, HeaderRow]
                @ fst (report_rows cell txs)
                @ [TotalLine (''Total Expenses: $'' @ toFixed 2 (snd (report_rows cell txs)))]))
            None
      | _ \<Rightarrow> respond (Json 500 (JO [(''error'', JS ''Failed to generate PDF'')])) None)"

definition generate_report :: "body \<Rightarrow> handled" where
  "generate_report = generate_report_with category_name"

definition category_cell :: "transaction \<Rightarrow> string option" where
  "category_cell t =
     (case category_name t of
        None \<Rightarrow> category t
      | Some s \<Rightarrow> if s = [] then category t else Some s)"

definition generate_report_v2 :: "body \<Rightarrow> handled" where
  "generate_report_v2 = generate_report_with category_cell"




section \<open>Insight generation\<close>

definition invalid_transactions :: response where
  "invalid_transactions = Json 400 (JO [(''error'', JS ''Invalid transactions data'')])"

definition no_transactions :: response where
  "no_transactions = Json 200 (JO [(''insights'', JS ''No transactions available for analysis'')])"

subsection \<open>The handler with the fallback analysis\<close>

text \<open>
  The \<open>catch\<close> block: \<open>getFallbackAnalysis\<close> is called outside any \<open>try\<close>, so an error
  it raises ends the handler without a response.
\<close>

definition insights_catch :: "body \<Rightarrow> prompt option \<Rightarrow> handled" where
  "insights_catch b sent =
     \<lparr> reply =
         (case getFallbackAnalysis (transactions b) (month b) (year b) of
            Inl e \<Rightarrow> Inl e
          | Inr analysis \<Rightarrow>
              Inr (Json 200
                     (JO [(''insights'', JS analysis),
                          (''success'', JB False),
                          (''fallback'', JB True),
                          (''error'',
                           JS ''AI analysis temporarily unavailable - showing basic analysis'')]))),
       ai_prompt = sent \<rparr>"

definition top_summary :: "string \<times> rat \<Rightarrow> string" where
  "top_summary e = fst e @ '' ('' @ toFixed 2 (snd e) @ '')''"

definition top_metadata :: "string \<times> rat \<Rightarrow> json" where
  "top_metadata e = JO [(''category'', JS (fst e)), (''amount'', JS (toFixed 2 (snd e)))]"

text \<open>
  The \<open>try\<close> block: validation, the empty-list answer, the statistics, the prompt (its
  template calls \<open>toFixed\<close> on the top totals, before the provider is called), the
  call, and the checks of what came back:
  \<^verbatim>\<open>
  if (!result || !result.response) throw new Error('No response from Gemini API');
  const text = response.text();
  if (!text || text.trim().length === 0) throw new Error('Empty response from Gemini API');
  \<close>
  Where the order of the ranking is not determined, neither is what the handler does,
  and the description stops there.
\<close>

definition generate_insights_fallback :: "body \<Rightarrow> ai_outcome \<Rightarrow> handled" where
  "generate_insights_fallback b ai =
     (if \<not> truthy (transactions b) \<or> \<not> isArray (transactions b)
      then respond invalid_transactions None
      else case transactions b of
             JArray txs \<Rightarrow>
               if length txs = 0 then respond no_transactions None
               else (case topCategories txs of
                       Inl e \<Rightarrow>
                         if e = SortOrderUnspecified
                         then \<lparr> reply = Inl SortOrderUnspecified, ai_prompt = None \<rparr>
                         else insights_catch b None
                     | Inr tops \<Rightarrow>
                         let p = StatsPrompt (month b) (year b) (toFixed 2 (totalAmount txs))
                                   (length txs) (map top_summary tops) txs
                         in case ai of
                              Rejects \<Rightarrow> insights_catch b (Some p)
                            | Malformed m \<Rightarrow> insights_catch b (Some p)
                            | Text t \<Rightarrow>
                                if blank t then insights_catch b (Some p)
                                else respond
                                       (Json 200
                                          (JO [(''insights'', JS t),
                                               (''success'', JB True),
                                               (''metadata'',
                                                JO [(''totalTransactions'', JN (of_nat (length txs))),
                                                    (''totalAmount'', JS (toFixed 2 (totalAmount txs))),
                                                    (''topCategories'', JA (map top_metadata tops))])]))
                                       (Some p))
           | _ \<Rightarrow> respond invalid_transactions None)"

subsection \<open>The handler of \<open>server/index.js\<close>\<close>

text \<open>
  The environment of the process: whether \<open>NODE_ENV\<close> is \<open>development\<close>, and the
  stack trace the runtime attached to the error that was caught.
\<close>

record env =
  development :: bool
  stack :: string

text \<open>
  \<^verbatim>\<open>
  res.status(500).json({
    error: error.message || "Analysis failed",
    details: process.env.NODE_ENV === 'development' ? error.stack : undefined
  });
  \<close>
\<close>

definition analysis_failed :: "env \<Rightarrow> string \<Rightarrow> response" where
  "analysis_failed e message =
     Json 500
       (JO ((''error'', JS (if message = [] then ''Analysis failed'' else message))
            # (if development e then [(''details'', JS (stack e))] else [])))"

text \<open>
  \<^verbatim>\<open>
  ${JSON.stringify(transactions.slice(0, 20), null, 2)}
  ${transactions.length > 20 ? `\n(Showing 20 of ${transactions.length} transactions)` : ''}
  \<close>
  A rejected call is rethrown as \<open>AI service unavailable\<close>; an empty text as
  \<open>Empty response from AI\<close>.
\<close>

definition generate_insights :: "env \<Rightarrow> body \<Rightarrow> ai_outcome \<Rightarrow> handled" where
  "generate_insights e b ai =
     (if \<not> truthy (transactions b) \<or> \<not> isArray (transactions b)
      then respond invalid_transactions None
      else case transactions b of
             JArray txs \<Rightarrow>
               if length txs = 0 then respond no_transactions None
               else
                 let p = JsonPrompt (month b) (year b) (take 20 txs)
                           (if length txs > 20 then Some (length txs) else None)
                 in (case ai of
                       Rejects \<Rightarrow> respond (analysis_failed e ''AI service unavailable'') (Some p)
                     | Malformed m \<Rightarrow> respond (analysis_failed e m) (Some p)
                     | Text t \<Rightarrow>
                         if t = [] then respond (analysis_failed e ''Empty response from AI'') (Some p)
                         else respond
                                (Json 200
                                   (JO [(''insights'', JS t),
                                        (''meta'',
                                         JO [(''transactionCount'', JN (of_nat (length txs))),
                                             (''period'', JS (month b @ '' '' @ year b))])]))
                                (Some p))
           | _ \<Rightarrow> respond invalid_transactions None)"

subsection \<open>The earliest handler\<close>

text \<open>
  No validation: the field goes into the prompt as it is, and every error is answered
  with status 500.
\<close>

definition generate_insights_budget :: "body \<Rightarrow> ai_outcome \<Rightarrow> handled" where
  "generate_insights_budget b ai =
     (let p = (case budget b of
                 None \<Rightarrow> SummaryPrompt (transactions b)
               | Some amt \<Rightarrow>
                   if amt = 0 then SummaryPrompt (transactions b)
                   else BudgetPrompt amt (transactions b))
      in case ai of
           Text t \<Rightarrow> respond (Json 200 (JO [(''insights'', JS t)])) (Some p)
         | _ \<Rightarrow> respond (Json 500 (JO [(''error'', JS ''Failed to generate insights'')])) (Some p))"

subsection \<open>The routes\<close>

definition post_generate_report :: "request \<Rightarrow> auth_outcome \<Rightarrow> handled" where
  "post_generate_report req auth = protected (\<lambda>r. generate_report (payload r)) req auth"

definition post_generate_report_v2 :: "request \<Rightarrow> auth_outcome \<Rightarrow> handled" where
  "post_generate_report_v2 req auth = protected (\<lambda>r. generate_report_v2 (payload r)) req auth"

definition post_generate_insights :: "env \<Rightarrow> request \<Rightarrow> auth_outcome \<Rightarrow> ai_outcome \<Rightarrow> handled" where
  "post_generate_insights e req auth ai =
     protected (\<lambda>r. generate_insights e (payload r) ai) req auth"

definition post_generate_insights_fallback :: "request \<Rightarrow> auth_outcome \<Rightarrow> ai_outcome \<Rightarrow> handled" where
  "post_generate_insights_fallback req auth ai =
     protected (\<lambda>r. generate_insights_fallback (payload r) ai) req auth"

definition post_generate_insights_budget :: "request \<Rightarrow> auth_outcome \<Rightarrow> ai_outcome \<Rightarrow> handled" where
  "post_generate_insights_budget req auth ai =
     protected (\<lambda>r. generate_insights_budget (payload r) ai) req auth"

section \<open>Notions used in the statements\<close>

text \<open>
  The notions the statements below are phrased in: the sum of the amounts of one
  category, the names that \<open>Object.prototype\<close> does not hand down, and the position
  of the first occurrence of a value in a list.
\<close>

definition category_sum :: "string \<Rightarrow> transaction list \<Rightarrow> rat" where
  "category_sum k txs = sum_list (map amount (filter (\<lambda>t. category_key t = k) txs))"

definition plain_key :: "string \<Rightarrow> bool" where
  "plain_key k = (k \<noteq> ''__proto__'' \<and> k \<notin> set inherited_functions)"


text \<open>The sum of the numeric values of an object's own properties.\<close>

fun numeric_sum :: "(string \<times> entry_value) list \<Rightarrow> rat" where
  "numeric_sum [] = 0"
| "numeric_sum ((k, Num v) # es) = v + numeric_sum es"
| "numeric_sum ((k, Concat) # es) = numeric_sum es"


text \<open>
  The transactions of the specification's example,
  \<open>[{amount: 12.50, category: "Food"}, {amount: 40, category: "Rent"}]\<close>.
\<close>

definition example_food :: transaction where
  "example_food =
     \<lparr> amount = 25 / 2, category = Some ''Food'', category_name = None, categories = None,
       date = DateMissing, description = None \<rparr>"

definition example_rent :: transaction where
  "example_rent =
     \<lparr> amount = 40, category = Some ''Rent'', category_name = None, categories = None,
       date = DateMissing, description = None \<rparr>"

definition example_body :: "jsval \<Rightarrow> body" where
  "example_body v =
     \<lparr> transactions = v, month = ''March'', year = ''2024'', summary = [], budget = None,
       other = [] \<rparr>"

definition production :: env where
  "production = \<lparr> development = False, stack = [] \<rparr>"






text \<open>A transaction whose category is named \<open>__proto__\<close>.\<close>

definition proto_tx :: transaction where
  "proto_tx =
     \<lparr> amount = 5, category = Some ''__proto__'', category_name = None, categories = None,
       date = DateMissing, description = None \<rparr>"

section \<open>Validation and the empty list\<close>

text \<open>
  C3. A request to the insights endpoint whose transaction list is present, an array
  and empty is answered with the fixed message \<open>No transactions available for
  analysis\<close>, and no prompt is submitted to the generative provider, whatever the
  provider would have answered. This holds for the handler of \<open>server/index.js\<close> and
  for the handler with the fallback analysis.
\<close>

theorem empty_list_short_circuit:
  "generate_insights e (b\<lparr>transactions := JArray []\<rparr>) ai =
     \<lparr> reply = Inr (Json 200 (JO [(''insights'', JS ''No transactions available for analysis'')])),
       ai_prompt = None \<rparr>
   \<and> generate_insights_fallback (b\<lparr>transactions := JArray []\<rparr>) ai =
     \<lparr> reply = Inr (Json 200 (JO [(''insights'', JS ''No transactions available for analysis'')])),
       ai_prompt = None \<rparr>"
  by (simp add: generate_insights_def generate_insights_fallback_def respond_def
      no_transactions_def)

theorem empty_list_short_circuit_witness:
  "ai_prompt (generate_insights \<lparr>development = False, stack = []\<rparr>
      \<lparr>transactions = JArray [], month = ''May'', year = ''2025'', summary = [],
       budget = None, other = []\<rparr> (Text ''unused'')) = None
   \<and> reply (generate_insights_fallback
      \<lparr>transactions = JArray [], month = ''May'', year = ''2025'', summary = [],
       budget = None, other = []\<rparr> Rejects)
     = Inr (Json 200 (JO [(''insights'', JS ''No transactions available for analysis'')]))"
  using empty_list_short_circuit
    [of "\<lparr>development = False, stack = []\<rparr>"
        "\<lparr>transactions = JNull, month = ''May'', year = ''2025'', summary = [],
          budget = None, other = []\<rparr>" "Text ''unused''"]
    empty_list_short_circuit
    [of "\<lparr>development = False, stack = []\<rparr>"
        "\<lparr>transactions = JNull, month = ''May'', year = ''2025'', summary = [],
          budget = None, other = []\<rparr>" Rejects]
  by simp

text \<open>
  C8. A request to the insights endpoint whose body has no \<open>transactions\<close> field, or
  whose \<open>transactions\<close> field is not an array, is answered with status 400 and the
  error message \<open>Invalid transactions data\<close>, and no prompt is submitted to the
  generative provider. This holds for the handler of \<open>server/index.js\<close> and for the
  handler with the fallback analysis.
\<close>

theorem non_array_is_bad_request:
  assumes "\<not> isArray (transactions b)"
  shows "generate_insights e b ai =
           \<lparr> reply = Inr (Json 400 (JO [(''error'', JS ''Invalid transactions data'')])),
             ai_prompt = None \<rparr>
         \<and> generate_insights_fallback b ai =
           \<lparr> reply = Inr (Json 400 (JO [(''error'', JS ''Invalid transactions data'')])),
             ai_prompt = None \<rparr>"
  using assms
  by (simp add: generate_insights_def generate_insights_fallback_def respond_def
      invalid_transactions_def)

theorem non_array_is_bad_request_witness:
  "\<not> isArray JUndefined
   \<and> generate_insights \<lparr>development = True, stack = ''at handler''\<rparr>
       \<lparr>transactions = JUndefined, month = ''May'', year = ''2025'', summary = [],
        budget = None, other = []\<rparr> (Text ''unused'')
     = \<lparr> reply = Inr (Json 400 (JO [(''error'', JS ''Invalid transactions data'')])),
         ai_prompt = None \<rparr>
   \<and> generate_insights_fallback
       \<lparr>transactions = JStr ''[1,2]'', month = ''May'', year = ''2025'', summary = [],
        budget = None, other = []\<rparr> (Text ''unused'')
     = \<lparr> reply = Inr (Json 400 (JO [(''error'', JS ''Invalid transactions data'')])),
         ai_prompt = None \<rparr>"
  using non_array_is_bad_request
    [of "\<lparr>transactions = JUndefined, month = ''May'', year = ''2025'', summary = [],
          budget = None, other = []\<rparr>"
        "\<lparr>development = True, stack = ''at handler''\<rparr>" "Text ''unused''"]
    non_array_is_bad_request
    [of "\<lparr>transactions = JStr ''[1,2]'', month = ''May'', year = ''2025'', summary = [],
          budget = None, other = []\<rparr>"
        "\<lparr>development = True, stack = ''at handler''\<rparr>" "Text ''unused''"]
  by simp

section \<open>The gate in front of the handlers\<close>

lemma authenticateJWT_denies:
  assumes "bearer_token (authorization req) = None
           \<or> bearer_token (authorization req) = Some []
           \<or> auth = AuthThrows \<or> auth = AuthError"
  shows "authenticateJWT req auth = Deny unauthorized"
  using assms
  by (auto simp: authenticateJWT_def split: option.splits auth_outcome.splits)

text \<open>
  C5. When the bearer token is missing (no \<open>Authorization\<close> header, no second word
  in it, or an empty one), when the auth provider answers with an error (an invalid
  token), or when the auth provider raises, a protected route answers with status 401
  and the body \<open>{error: 'Unauthorized'}\<close>, and the handler behind the gate is not
  run: the outcome is the same for every handler, no prompt is submitted to the
  generative provider and no report is produced. This holds for every route the
  server registers behind \<open>authenticateJWT\<close>.
\<close>

theorem unauthorized_skips_handler:
  assumes "bearer_token (authorization req) = None
           \<or> bearer_token (authorization req) = Some []
           \<or> auth = AuthThrows \<or> auth = AuthError"
  shows "protected handler req auth =
           \<lparr> reply = Inr (Json 401 (JO [(''error'', JS ''Unauthorized'')])), ai_prompt = None \<rparr>
         \<and> post_generate_report req auth = protected handler req auth
         \<and> post_generate_report_v2 req auth = protected handler req auth
         \<and> post_generate_insights e req auth ai = protected handler req auth
         \<and> post_generate_insights_fallback req auth ai = protected handler req auth
         \<and> post_generate_insights_budget req auth ai = protected handler req auth"
  using authenticateJWT_denies [OF assms]
  by (simp add: protected_def post_generate_report_def post_generate_report_v2_def
      post_generate_insights_def post_generate_insights_fallback_def
      post_generate_insights_budget_def respond_def unauthorized_def)

theorem unauthorized_skips_handler_witness:
  "post_generate_insights_fallback
     \<lparr>authorization = Some ''Bearer abc'',
      payload = \<lparr>transactions = JArray [], month = ''May'', year = ''2025'', summary = [],
                 budget = None, other = []\<rparr>\<rparr>
     AuthError (Text ''unused'')
   = \<lparr> reply = Inr (Json 401 (JO [(''error'', JS ''Unauthorized'')])), ai_prompt = None \<rparr>
   \<and> post_generate_report
     \<lparr>authorization = Some ''Bearer'',
      payload = \<lparr>transactions = JArray [], month = ''May'', year = ''2025'', summary = [],
                 budget = None, other = []\<rparr>\<rparr>
     (AuthUser ''student'')
   = \<lparr> reply = Inr (Json 401 (JO [(''error'', JS ''Unauthorized'')])), ai_prompt = None \<rparr>"
proof -
  let ?b = "\<lparr>transactions = JArray [], month = ''May'', year = ''2025'', summary = [],
             budget = None, other = []\<rparr>"
  have "post_generate_insights_fallback \<lparr>authorization = Some ''Bearer abc'', payload = ?b\<rparr>
          AuthError (Text ''unused'')
        = \<lparr> reply = Inr (Json 401 (JO [(''error'', JS ''Unauthorized'')])), ai_prompt = None \<rparr>"
    using unauthorized_skips_handler
      [where req = "\<lparr>authorization = Some ''Bearer abc'', payload = ?b\<rparr>"
         and auth = AuthError and ai = "Text ''unused''" and handler = "\<lambda>r. generate_report (payload r)"]
    by simp
  moreover
  have "bearer_token (Some ''Bearer'') = None"
    by (simp add: bearer_token_def)
  then have "post_generate_report \<lparr>authorization = Some ''Bearer'', payload = ?b\<rparr>
          (AuthUser ''student'')
        = \<lparr> reply = Inr (Json 401 (JO [(''error'', JS ''Unauthorized'')])), ai_prompt = None \<rparr>"
    using unauthorized_skips_handler
      [where req = "\<lparr>authorization = Some ''Bearer'', payload = ?b\<rparr>"
         and auth = "AuthUser ''student''" and handler = "\<lambda>r. generate_report (payload r)"]
    by simp
  ultimately show ?thesis by simp
qed

section \<open>Properties of the statistics loop\<close>

lemma tally_snoc:
  "tally (txs @ [t]) =
     (accumulate (fst (tally txs)) (category_key t) (amount t), snd (tally txs) + amount t)"
  by (simp add: tally_def split_def)

lemma tally_Nil: "tally [] = ([], 0)"
  by (simp add: tally_def)

lemma categoryTotals_Nil: "categoryTotals [] = []"
  by (simp add: categoryTotals_def tally_Nil)

lemma categoryTotals_snoc:
  "categoryTotals (txs @ [t]) = accumulate (categoryTotals txs) (category_key t) (amount t)"
  by (simp add: categoryTotals_def tally_snoc)

lemma totalAmount_sum_list: "totalAmount txs = sum_list (map amount txs)"
  by (induction txs rule: rev_induct) (simp_all add: totalAmount_def tally_snoc tally_Nil)

lemma map_fst_accumulate:
  "map fst (accumulate obj k a) =
     (if k \<in> fst ` set obj \<or> k = ''__proto__'' then map fst obj else map fst obj @ [k])"
  by (auto simp: accumulate_def update_keys map_of_eq_None_iff
      split: option.splits entry_value.splits dest: map_of_SomeD)
     (metis fst_conv image_eqI map_of_SomeD)+

lemma distinct_accumulate:
  "distinct (map fst obj) \<Longrightarrow> distinct (map fst (accumulate obj k a))"
  by (simp add: map_fst_accumulate)

lemma distinct_categoryTotals: "distinct (map fst (categoryTotals txs))"
  by (induction txs rule: rev_induct)
     (simp_all add: categoryTotals_Nil categoryTotals_snoc distinct_accumulate)

lemma map_of_accumulate:
  "map_of (accumulate obj k a) k' =
     (if k' \<noteq> k then map_of obj k'
      else case map_of obj k of
             Some (Num v) \<Rightarrow> Some (Num (v + a))
           | Some Concat \<Rightarrow> Some Concat
           | None \<Rightarrow> if k = ''__proto__'' then None
                     else if k \<in> set inherited_functions then Some Concat
                     else Some (Num a))"
  by (auto simp: accumulate_def update_conv' map_of_append map_add_def
      split: option.splits entry_value.splits)

lemma category_sum_snoc:
  "category_sum k (txs @ [t]) =
     (if category_key t = k then category_sum k txs + amount t else category_sum k txs)"
  by (simp add: category_sum_def)

lemma category_sum_unseen:
  "k \<notin> category_key ` set txs \<Longrightarrow> category_sum k txs = 0"
proof -
  assume "k \<notin> category_key ` set txs"
  then have "filter (\<lambda>t. category_key t = k) txs = []"
    by (auto simp: filter_empty_conv)
  then show ?thesis by (simp add: category_sum_def)
qed

lemma map_of_categoryTotals:
  "map_of (categoryTotals txs) k =
     (if k \<notin> category_key ` set txs \<or> k = ''__proto__'' then None
      else if k \<in> set inherited_functions then Some Concat
      else Some (Num (category_sum k txs)))"
proof (induction txs rule: rev_induct)
  case Nil
  then show ?case by (simp add: categoryTotals_Nil)
next
  case (snoc t txs)
  show ?case
  proof (cases "category_key t = k")
    case False
    then show ?thesis
      using snoc by (auto simp: categoryTotals_snoc map_of_accumulate category_sum_snoc)
  next
    case True
    then show ?thesis
      using snoc
      by (auto simp: categoryTotals_snoc map_of_accumulate category_sum_snoc
          category_sum_unseen)
  qed
qed

lemma set_entries: "set (entries obj) = set obj"
  by (auto simp: entries_def)

lemma length_entries: "length (entries obj) = length obj"
proof -
  have "length (entries obj) =
          length (filter (\<lambda>e. array_index (fst e) \<noteq> None) obj) +
          length (filter (\<lambda>e. \<not> array_index (fst e) \<noteq> None) obj)"
    by (simp add: entries_def)
  then show ?thesis
    by (simp only: sum_length_filter_compl)
qed


lemma numeric_entries_Some:
  "numeric_entries es = Some ns \<Longrightarrow> es = map (\<lambda>e. (fst e, Num (snd e))) ns"
  by (induction es arbitrary: ns rule: numeric_entries.induct) auto

lemma numeric_entries_None:
  "numeric_entries es = None \<Longrightarrow> \<exists>k. (k, Concat) \<in> set es"
  by (induction es rule: numeric_entries.induct) auto

lemma concat_needs_inherited:
  assumes "(k, Concat) \<in> set (categoryTotals txs)"
  shows "k \<in> set inherited_functions \<and> k \<in> category_key ` set txs"
proof -
  have "map_of (categoryTotals txs) k = Some Concat"
    using assms distinct_categoryTotals by simp
  then show ?thesis
    by (simp add: map_of_categoryTotals split: if_splits)
qed


lemma plain_numeric_entries:
  assumes "list_all (\<lambda>t. plain_key (category_key t)) txs"
  shows "\<exists>ns. numeric_entries (entries (categoryTotals txs)) = Some ns"
proof (cases "numeric_entries (entries (categoryTotals txs))")
  case None
  then obtain k where "(k, Concat) \<in> set (categoryTotals txs)"
    using numeric_entries_None set_entries by blast
  then have "k \<in> set inherited_functions" "k \<in> category_key ` set txs"
    using concat_needs_inherited by blast+
  with assms show ?thesis
    by (auto simp: list_all_iff plain_key_def)
next
  case (Some ns)
  then show ?thesis by blast
qed


lemma plain_topCategories:
  assumes "list_all (\<lambda>t. plain_key (category_key t)) txs"
  shows "\<exists>tops. topCategories txs = Inr tops"
  using plain_numeric_entries [OF assms]
  by (auto simp: topCategories_def Let_def)





section \<open>The fallback summary\<close>











section \<open>The insights handlers on a non-empty list\<close>

lemma generate_insights_fallback_array:
  assumes "transactions b = JArray txs" and "txs \<noteq> []"
  shows "generate_insights_fallback b ai =
     (case topCategories txs of
        Inl e \<Rightarrow>
          if e = SortOrderUnspecified
          then \<lparr> reply = Inl SortOrderUnspecified, ai_prompt = None \<rparr>
          else insights_catch b None
      | Inr tops \<Rightarrow>
          let p = StatsPrompt (month b) (year b) (toFixed 2 (totalAmount txs))
                    (length txs) (map top_summary tops) txs
          in case ai of
               Rejects \<Rightarrow> insights_catch b (Some p)
             | Malformed m \<Rightarrow> insights_catch b (Some p)
             | Text t \<Rightarrow>
                 if blank t then insights_catch b (Some p)
                 else respond
                        (Json 200
                           (JO [(''insights'', JS t),
                                (''success'', JB True),
                                (''metadata'',
                                 JO [(''totalTransactions'', JN (of_nat (length txs))),
                                     (''totalAmount'', JS (toFixed 2 (totalAmount txs))),
                                     (''topCategories'', JA (map top_metadata tops))])]))
                        (Some p))"
  using assms by (simp add: generate_insights_fallback_def)

lemma generate_insights_array:
  assumes "transactions b = JArray txs" and "txs \<noteq> []"
  shows "generate_insights e b ai =
     (let p = JsonPrompt (month b) (year b) (take 20 txs)
                (if length txs > 20 then Some (length txs) else None)
      in (case ai of
            Rejects \<Rightarrow> respond (analysis_failed e ''AI service unavailable'') (Some p)
          | Malformed m \<Rightarrow> respond (analysis_failed e m) (Some p)
          | Text t \<Rightarrow>
              if t = [] then respond (analysis_failed e ''Empty response from AI'') (Some p)
              else respond
                     (Json 200
                        (JO [(''insights'', JS t),
                             (''meta'',
                              JO [(''transactionCount'', JN (of_nat (length txs))),
                                  (''period'', JS (month b @ '' '' @ year b))])]))
                     (Some p)))"
  using assms by (simp add: generate_insights_def)

lemma fallback_prompt_sent:
  assumes "transactions b = JArray txs" and "txs \<noteq> []"
    and "ai_prompt (generate_insights_fallback b ai) = Some p"
  shows "\<exists>tops. topCategories txs = Inr tops
           \<and> p = StatsPrompt (month b) (year b) (toFixed 2 (totalAmount txs))
                  (length txs) (map top_summary tops) txs"
  using assms(3) unfolding generate_insights_fallback_array [OF assms(1,2)]
  by (auto simp: insights_catch_def respond_def Let_def
      split: sum.splits ai_outcome.splits if_splits)





section \<open>What the prompt embeds\<close>

lemma replicate_food_prompt:
  "ai_prompt (generate_insights_fallback (example_body (JArray (replicate (Suc n) example_food))) Rejects)
     = Some (StatsPrompt ''March'' ''2024''
               (toFixed 2 (totalAmount (replicate (Suc n) example_food))) (Suc n)
               (map top_summary
                  (case topCategories (replicate (Suc n) example_food) of Inr tops \<Rightarrow> tops | Inl e \<Rightarrow> []))
               (replicate (Suc n) example_food))"
proof -
  let ?txs = "replicate (Suc n) example_food"
  have "plain_key (category_key example_food)"
    by (simp add: example_food_def category_key_def or_else_def plain_key_def
        inherited_functions_def)
  then have "list_all (\<lambda>t. plain_key (category_key t)) ?txs"
    by (simp add: list_all_iff)
  then obtain tops where tops: "topCategories ?txs = Inr tops"
    using plain_topCategories by blast
  have b: "transactions (example_body (JArray ?txs)) = JArray ?txs"
    by (simp add: example_body_def)
  have ne: "?txs \<noteq> []" by simp
  show ?thesis
    unfolding generate_insights_fallback_array [OF b ne] tops
    by (simp add: insights_catch_def example_body_def)
qed

text \<open>
  C7 fails on the handler with the fallback analysis: its prompt has one line for
  every transaction. With 21 transactions it embeds 21 lines, and no bound holds for
  all lists.
\<close>

theorem prompt_lines_unbounded:
  "(case ai_prompt (generate_insights_fallback
                      (example_body (JArray (replicate 21 example_food))) Rejects) of
      Some p \<Rightarrow> length (raw_transactions p)
    | None \<Rightarrow> 0) = 21
   \<and> \<not> (\<exists>bound. \<forall>b ai p. ai_prompt (generate_insights_fallback b ai) = Some p
                      \<longrightarrow> length (raw_transactions p) \<le> bound)"
proof
  have "(21::nat) = Suc 20" by simp
  then show "(case ai_prompt (generate_insights_fallback
                      (example_body (JArray (replicate 21 example_food))) Rejects) of
      Some p \<Rightarrow> length (raw_transactions p)
    | None \<Rightarrow> 0) = 21"
    by (simp only: replicate_food_prompt) simp
next
  show "\<not> (\<exists>bound. \<forall>b ai p. ai_prompt (generate_insights_fallback b ai) = Some p
                      \<longrightarrow> length (raw_transactions p) \<le> bound)"
  proof
    assume "\<exists>bound. \<forall>b ai p. ai_prompt (generate_insights_fallback b ai) = Some p
                      \<longrightarrow> length (raw_transactions p) \<le> bound"
    then obtain bound where bound:
      "\<And>b ai p. ai_prompt (generate_insights_fallback b ai) = Some p
                 \<Longrightarrow> length (raw_transactions p) \<le> bound"
      by blast
    have "Suc bound \<le> bound"
      using bound [OF replicate_food_prompt [of bound]] by simp
    then show False by simp
  qed
qed

text \<open>
  C7, amended. For a transaction array accepted by the insights endpoint: the prompt
  of \<open>server/index.js\<close> embeds the first 20 transactions, hence at most 20, and states
  the length of the list when it is longer; the prompt of the handler with the
  fallback analysis embeds every transaction of the list.
\<close>

theorem prompt_embedded_transactions:
  assumes "transactions b = JArray txs" and "txs \<noteq> []"
  shows "(\<forall>p. ai_prompt (generate_insights e b ai) = Some p \<longrightarrow>
            p = JsonPrompt (month b) (year b) (take 20 txs)
                  (if length txs > 20 then Some (length txs) else None)
            \<and> raw_transactions p = take 20 txs
            \<and> length (raw_transactions p) \<le> 20)
         \<and> ai_prompt (generate_insights e b ai) \<noteq> None
         \<and> (\<forall>p. ai_prompt (generate_insights_fallback b ai) = Some p \<longrightarrow>
            raw_transactions p = txs)"
proof (intro conjI allI impI)
  fix p
  assume "ai_prompt (generate_insights e b ai) = Some p"
  then have p: "p = JsonPrompt (month b) (year b) (take 20 txs)
                  (if length txs > 20 then Some (length txs) else None)"
    unfolding generate_insights_array [OF assms]
    by (auto simp: Let_def respond_def split: ai_outcome.splits if_splits)
  then show "p = JsonPrompt (month b) (year b) (take 20 txs)
                  (if length txs > 20 then Some (length txs) else None)" .
  from p show "raw_transactions p = take 20 txs" by simp
  from p show "length (raw_transactions p) \<le> 20" by simp
next
  show "ai_prompt (generate_insights e b ai) \<noteq> None"
    unfolding generate_insights_array [OF assms]
    by (auto simp: Let_def respond_def split: ai_outcome.splits)
next
  fix p
  assume "ai_prompt (generate_insights_fallback b ai) = Some p"
  then obtain tops where
    "p = StatsPrompt (month b) (year b) (toFixed 2 (totalAmount txs))
           (length txs) (map top_summary tops) txs"
    using fallback_prompt_sent [OF assms] by blast
  then show "raw_transactions p = txs" by simp
qed

theorem prompt_embedded_transactions_witness:
  "(case ai_prompt (generate_insights production
                      (example_body (JArray (replicate 21 example_food))) Rejects) of
      Some p \<Rightarrow> length (raw_transactions p) \<le> 20
    | None \<Rightarrow> False)
   \<and> (case ai_prompt (generate_insights_fallback
                      (example_body (JArray (replicate 21 example_food))) Rejects) of
      Some p \<Rightarrow> raw_transactions p = replicate 21 example_food
    | None \<Rightarrow> False)"
proof -
  let ?txs = "replicate 21 example_food"
  let ?b = "example_body (JArray ?txs)"
  have b: "transactions ?b = JArray ?txs"
    by (simp add: example_body_def)
  have ne: "?txs \<noteq> []" by simp
  have "(21::nat) = Suc 20" by simp
  then have sent: "ai_prompt (generate_insights_fallback ?b Rejects) \<noteq> None"
    by (simp only: replicate_food_prompt) simp
  show ?thesis
    using prompt_embedded_transactions [OF b ne, of production Rejects] sent
    by (auto split: option.splits)
qed

section \<open>The response to a successful call\<close>




section \<open>The order of ties\<close>













section \<open>Report rendering: the printed total\<close>









lemma set_update_subset:
  "set (AList.update k v al) \<subseteq> insert (k, v) (set al)"
  by (induction al) auto

lemma no_concat_accumulate:
  assumes "plain_key k" and "\<forall>e \<in> set obj. snd e \<noteq> Concat"
  shows "\<forall>e \<in> set (accumulate obj k a). snd e \<noteq> Concat"
proof (cases "map_of obj k")
  case None
  then show ?thesis
    using assms by (auto simp: accumulate_def plain_key_def)
next
  case (Some v)
  show ?thesis
  proof (cases v)
    case (Num n)
    then have "set (accumulate obj k a) \<subseteq> insert (k, Num (n + a)) (set obj)"
      using Some by (simp add: accumulate_def set_update_subset)
    then show ?thesis
      using assms(2) by fastforce
  next
    case Concat
    then show ?thesis
      using Some assms(2) by (simp add: accumulate_def)
  qed
qed






section \<open>Per-category totals and the overall total\<close>

lemma numeric_sum_append:
  "numeric_sum (xs @ ys) = numeric_sum xs + numeric_sum ys"
  by (induction xs rule: numeric_sum.induct) simp_all

lemma numeric_sum_update:
  "distinct (map fst obj) \<Longrightarrow> map_of obj k = Some (Num v) \<Longrightarrow>
   numeric_sum (AList.update k (Num (v + a)) obj) = numeric_sum obj + a"
proof (induction obj rule: numeric_sum.induct)
  case 1
  then show ?case by simp
next
  case (2 k' v' es)
  then show ?case by (cases "k' = k") auto
next
  case (3 k' es)
  then show ?case by (cases "k' = k") auto
qed

lemma numeric_sum_accumulate:
  assumes "plain_key k" and "distinct (map fst obj)" and "\<forall>e \<in> set obj. snd e \<noteq> Concat"
  shows "numeric_sum (accumulate obj k a) = numeric_sum obj + a"
proof (cases "map_of obj k")
  case None
  then show ?thesis
    using assms(1) by (simp add: accumulate_def plain_key_def numeric_sum_append)
next
  case (Some v)
  then have "(k, v) \<in> set obj" by (rule map_of_SomeD)
  then obtain n where "v = Num n"
    using assms(3) by (cases v) auto
  then show ?thesis
    using Some assms(2) by (simp add: accumulate_def numeric_sum_update)
qed

lemma plain_categoryTotals:
  assumes "list_all (\<lambda>t. plain_key (category_key t)) txs"
  shows "(\<forall>e \<in> set (categoryTotals txs). snd e \<noteq> Concat)
         \<and> numeric_sum (categoryTotals txs) = sum_list (map amount txs)"
  using assms
proof (induction txs rule: rev_induct)
  case Nil
  then show ?case by (simp add: categoryTotals_Nil)
next
  case (snoc t txs)
  then have plain: "plain_key (category_key t)"
    and nc: "\<forall>e \<in> set (categoryTotals txs). snd e \<noteq> Concat"
    and sum: "numeric_sum (categoryTotals txs) = sum_list (map amount txs)"
    by simp_all
  show ?case
    using no_concat_accumulate [OF plain nc]
      numeric_sum_accumulate [OF plain distinct_categoryTotals nc] sum
    by (simp add: categoryTotals_snoc)
qed

lemma numeric_sum_sum_list:
  "numeric_sum es = sum_list (map (\<lambda>e. case snd e of Num v \<Rightarrow> v | Concat \<Rightarrow> 0) es)"
  by (induction es rule: numeric_sum.induct) simp_all

lemma sum_list_insort_key:
  "sum_list (map h (insort_key f e es)) = (h e :: rat) + sum_list (map h es)"
  by (induction es) simp_all

lemma sum_list_sort_key:
  "sum_list (map h (sort_key f es)) = (sum_list (map h es) :: rat)"
  by (induction es) (simp_all add: sum_list_insort_key)

lemma sum_list_partition:
  "sum_list (map h (filter P es)) + sum_list (map h (filter (\<lambda>e. \<not> P e) es))
     = (sum_list (map h es) :: rat)"
  by (induction es) simp_all

lemma numeric_sum_entries: "numeric_sum (entries obj) = numeric_sum obj"
  using sum_list_partition [of _ "\<lambda>e. array_index (fst e) \<noteq> None" obj]
  by (simp add: entries_def numeric_sum_sum_list sum_list_sort_key)

text \<open>
  C10 at a category named \<open>__proto__\<close>: the amount enters the overall total, and no
  per-category total holds it. The per-category totals sum to 12.50, the overall
  total is 17.50.
\<close>

theorem proto_category_not_counted:
  "map category_key [example_food, proto_tx] = [''Food'', ''__proto__'']
   \<and> entries (categoryTotals [example_food, proto_tx]) = [(''Food'', Num (25 / 2))]
   \<and> numeric_sum (entries (categoryTotals [example_food, proto_tx])) = 25 / 2
   \<and> totalAmount [example_food, proto_tx] = 35 / 2"
  by code_simp

text \<open>
  The statement that does hold: when no category name is a property name of
  \<open>Object.prototype\<close>, every per-category total that \<open>Object.entries\<close> lists is a
  number, these totals sum to the overall total, which is the sum of the amounts, and
  a transaction with neither \<open>category\<close> nor \<open>category_name\<close> is counted under
  \<open>Other\<close>.
\<close>

theorem plain_totals_partition:
  assumes "list_all (\<lambda>t. plain_key (category_key t)) txs"
  shows "(\<exists>ns. numeric_entries (entries (categoryTotals txs)) = Some ns
              \<and> sum_list (map snd ns) = totalAmount txs)
         \<and> numeric_sum (entries (categoryTotals txs)) = totalAmount txs
         \<and> totalAmount txs = sum_list (map amount txs)
         \<and> list_all (\<lambda>t. category t = None \<and> category_name t = None
                          \<longrightarrow> category_key t = ''Other'') txs"
proof -
  obtain ns where ns: "numeric_entries (entries (categoryTotals txs)) = Some ns"
    using plain_numeric_entries [OF assms] by blast
  have sum: "numeric_sum (entries (categoryTotals txs)) = totalAmount txs"
    using plain_categoryTotals [OF assms]
    by (simp add: numeric_sum_entries totalAmount_sum_list)
  have "numeric_sum (map (\<lambda>e. (fst e, Num (snd e))) ms) = sum_list (map snd ms)"
    for ms :: "(string \<times> rat) list"
    by (induction ms) simp_all
  then have "sum_list (map snd ns) = totalAmount txs"
    using numeric_entries_Some [OF ns] sum by simp
  moreover have "list_all (\<lambda>t. category t = None \<and> category_name t = None
                          \<longrightarrow> category_key t = ''Other'') txs"
    by (simp add: list_all_iff category_key_def or_else_def)
  ultimately show ?thesis
    using ns sum by (simp add: totalAmount_sum_list)
qed

theorem plain_totals_partition_witness:
  "numeric_sum (entries (categoryTotals [example_food, example_rent, example_food]))
     = sum_list (map amount [example_food, example_rent, example_food])"
proof -
  have "list_all (\<lambda>t. plain_key (category_key t)) [example_food, example_rent, example_food]"
    by (simp add: example_food_def example_rent_def category_key_def or_else_def plain_key_def
        inherited_functions_def)
  then show ?thesis
    using plain_totals_partition [of "[example_food, example_rent, example_food]"] by simp
qed

section \<open>Further behaviour of the handlers\<close>

text \<open>
  In the handler with the fallback analysis, a date that is present and does not
  parse makes \<open>getFallbackAnalysis\<close> raise inside the \<open>catch\<close> block: the handler ends
  with the RangeError of \<open>toISOString\<close> and sends no response.
\<close>

lemma fallback_raises_on_invalid_date:
  "generate_insights_fallback (example_body (JArray [example_food\<lparr>date := DateInvalid\<rparr>])) Rejects
     = \<lparr> reply = Inl RangeError,
         ai_prompt = Some (StatsPrompt ''March'' ''2024'' ''12.50'' 1 [''Food (12.50)'']
                             [example_food\<lparr>date := DateInvalid\<rparr>]) \<rparr>"
  by code_simp

text \<open>
  A category named like an inherited method makes the statistics raise before the
  provider is called, and again in the \<open>catch\<close> block.
\<close>

lemma inherited_name_raises:
  "generate_insights_fallback
     (example_body (JArray [example_food\<lparr>category := Some ''constructor''\<rparr>])) (Text ''unused'')
     = \<lparr> reply = Inl TypeError, ai_prompt = None \<rparr>"
  by code_simp

text \<open>
  The earliest handler has neither the validation nor the test for an empty list:
  it submits a prompt for an empty array and for a missing field.
\<close>

lemma earliest_handler_always_calls:
  "generate_insights_budget (example_body (JArray [])) (Text ''Nothing to analyse.'')
     = \<lparr> reply = Inr (Json 200 (JO [(''insights'', JS ''Nothing to analyse.'')])),
         ai_prompt = Some (SummaryPrompt (JArray [])) \<rparr>
   \<and> ai_prompt (generate_insights_budget (example_body JUndefined) Rejects)
     = Some (SummaryPrompt JUndefined)"
  by (simp add: generate_insights_budget_def example_body_def respond_def)

end
